theory Spec2Isabelle
  imports Complex_Main "HOL-Library.Word"
begin

section \<open>LED Relay 2: data model\<close>

text \<open>
  The firmware of \<^verbatim>\<open>code/LED Relay 2/main.c\<close> is one polling loop (\<^verbatim>\<open>main\<close>) and five
  interrupt handlers that share a few globals. The two sense inputs are ACC1 (primary) and
  ACC2 (secondary); the timer TCC4 counts milliseconds in a 16-bit register.

  \<^item> \<^verbatim>\<open>uint16_t\<close> is \<open>16 word\<close> and \<^verbatim>\<open>uint8_t\<close> is \<open>8 word\<close>: subtraction, addition and
    \<^verbatim>\<open>++\<close> wrap, comparison is unsigned.
  \<^item> The three \<^verbatim>\<open>enum\<close>s are datatypes; the \<^verbatim>\<open>default:\<close> branch of each \<^verbatim>\<open>switch\<close> is the
    branch of the enumerator that has no \<^verbatim>\<open>case\<close> label (the reset state).
  \<^item> \<^verbatim>\<open>acc1_last\<close> and \<^verbatim>\<open>acc2_last\<close> only ever hold \<^verbatim>\<open>ON\<close> or \<^verbatim>\<open>OFF\<close>: they are \<open>bool\<close>.
  \<^item> The hardware the code touches is part of the state: the counter and compare registers
    of TCC4, the three compare interrupt levels of \<^verbatim>\<open>TCC4.INTCTRLB\<close>, the high-level
    interrupt enable of \<^verbatim>\<open>PMIC.CTRL\<close>, the two raw input pins, the two power switch outputs,
    the watchdog enable, the sleep the loop last entered and the EEPROM byte.
\<close>

type_synonym u8 = "8 word"
type_synonym u16 = "16 word"

datatype POWER_SM =
  SM_POWER_RESET | SM_POWER_DOWN | SM_POWER_OUT_OFF | SM_POWER_OUT_ON
  | SM_POWER_OUT_STAY_ON | SM_POWER_TIMER

datatype STAYON_SM = SM_STAYON_RESET | SM_STAYON_WAIT_ON | SM_STAYON_WAIT_OFF

datatype PROG_SM =
  SM_PROG_RESET | SM_PROG_FLASH_ON | SM_PROG_FLASH_OFF | SM_PROG_END_ON
  | SM_PROG_END_OFF | SM_PROG_IND_ON | SM_PROG_IND_OFF

datatype SLEEP_SMODE = SLEEP_SMODE_PDOWN | SLEEP_SMODE_IDLE

record state =
  TCC4_CNT :: u16
  TCC4_CCA :: u16
  TCC4_CCB :: u16
  TCC4_CCC :: u16
  CCAINTLVL :: bool
  CCBINTLVL :: bool
  CCCINTLVL :: bool
  PMIC_HILVLEN :: bool
  ACC1_pin :: bool
  ACC2_pin :: bool
  V1EN :: bool
  V2EN :: bool
  WDT_ENABLE :: bool
  slept :: "SLEEP_SMODE option"
  eeprom_wait_minutes :: u8
  seconds :: u8
  minutes :: u8
  acc1_last :: bool
  acc1_on_start_time :: u16
  acc1_off_start_time :: u16
  acc2_last :: bool
  acc2_on_start_time :: u16
  acc2_off_start_time :: u16
  power_state :: POWER_SM
  stayon_state :: STAYON_SM
  prog_state :: PROG_SM
  wait_minutes :: u8
  acc1_on_time :: u16
  acc1_off_time :: u16
  acc2_on_time :: u16
  acc2_off_time :: u16
  tick_cnt_ms :: u16
  flash_count :: u8

subsection \<open>Macros\<close>

text \<open>
  \<^verbatim>\<open>#define MAIN_TCNT_FROM_SECONDS(sec) (uint16_t) round(sec / 0.001)\<close>. The C expression is
  a \<^verbatim>\<open>double\<close> constant; for every argument the source uses the quotient is within
  \<open>10\<^sup>-\<^sup>9\<close> of an integer, so rounding the exact rational quotient gives the same tick
  count.
\<close>

definition MAIN_TCNT_FROM_SECONDS :: "rat \<Rightarrow> u16" where
  "MAIN_TCNT_FROM_SECONDS sec = word_of_int (round (sec / 0.001))"

definition DEBOUNCE_TIME :: rat where
  "DEBOUNCE_TIME = 0.050"

definition V12EN_ON :: "state \<Rightarrow> state" where
  "V12EN_ON s = s\<lparr>V1EN := True, V2EN := True\<rparr>"

definition V12EN_OFF :: "state \<Rightarrow> state" where
  "V12EN_OFF s = s\<lparr>V1EN := False, V2EN := False\<rparr>"

definition IS_ACC1_ON :: "state \<Rightarrow> bool" where
  "IS_ACC1_ON s = ACC1_pin s"

definition IS_ACC2_ON :: "state \<Rightarrow> bool" where
  "IS_ACC2_ON s = ACC2_pin s"

text \<open>
  The watchdog calls of \<^verbatim>\<open>avr/wdt.h\<close>: \<^verbatim>\<open>wdt_enable\<close> and \<^verbatim>\<open>wdt_disable\<close> set and clear
  the watchdog's enable bit; \<^verbatim>\<open>wdt_reset\<close> is the single instruction \<^verbatim>\<open>wdr\<close>, which restarts
  the watchdog's count and writes no register of the model.
\<close>

definition wdt_enable :: "state \<Rightarrow> state" where
  "wdt_enable s = s\<lparr>WDT_ENABLE := True\<rparr>"

definition wdt_disable :: "state \<Rightarrow> state" where
  "wdt_disable s = s\<lparr>WDT_ENABLE := False\<rparr>"

definition wdt_reset :: "state \<Rightarrow> state" where
  "wdt_reset s = s"

text \<open>
  \<^verbatim>\<open>set_sleep_mode(m); sleep_mode();\<close> stops the processor until an interrupt. The
  handler that wakes it runs before the loop goes on; the model records the sleep in
  \<open>slept\<close> and lets the handlers run between two iterations of the loop.
\<close>

definition sleep_mode :: "SLEEP_SMODE \<Rightarrow> state \<Rightarrow> state" where
  "sleep_mode m s = s\<lparr>slept := Some m\<rparr>"

section \<open>The polling loop\<close>

subsection \<open>ON and OFF times (lines 129 to 175)\<close>

text \<open>Lines 131 to 152: the ON time or the OFF time of ACC1, whichever is running.\<close>

definition acc1_times :: "state \<Rightarrow> state" where
  "acc1_times s0 =
    (if acc1_last s0 then
       (let s = s0\<lparr>acc1_on_time := tick_cnt_ms s0 - acc1_on_start_time s0\<rparr> in
        if acc1_on_time s > MAIN_TCNT_FROM_SECONDS 65.0 then
          s\<lparr>acc1_on_time := MAIN_TCNT_FROM_SECONDS 65.0,
            acc1_on_start_time := tick_cnt_ms s - MAIN_TCNT_FROM_SECONDS 65.0\<rparr>
        else s)
     else
       (let s = s0\<lparr>acc1_off_time := tick_cnt_ms s0 - acc1_off_start_time s0\<rparr> in
        if acc1_off_time s > MAIN_TCNT_FROM_SECONDS 65.0 then
          s\<lparr>acc1_off_time := MAIN_TCNT_FROM_SECONDS 65.0,
            acc1_off_start_time := tick_cnt_ms s - MAIN_TCNT_FROM_SECONDS 65.0\<rparr>
        else s))"

text \<open>Lines 153 to 174: the same for ACC2.\<close>

definition acc2_times :: "state \<Rightarrow> state" where
  "acc2_times s0 =
    (if acc2_last s0 then
       (let s = s0\<lparr>acc2_on_time := tick_cnt_ms s0 - acc2_on_start_time s0\<rparr> in
        if acc2_on_time s > MAIN_TCNT_FROM_SECONDS 65.0 then
          s\<lparr>acc2_on_time := MAIN_TCNT_FROM_SECONDS 65.0,
            acc2_on_start_time := tick_cnt_ms s - MAIN_TCNT_FROM_SECONDS 65.0\<rparr>
        else s)
     else
       (let s = s0\<lparr>acc2_off_time := tick_cnt_ms s0 - acc2_off_start_time s0\<rparr> in
        if acc2_off_time s > MAIN_TCNT_FROM_SECONDS 65.0 then
          s\<lparr>acc2_off_time := MAIN_TCNT_FROM_SECONDS 65.0,
            acc2_off_start_time := tick_cnt_ms s - MAIN_TCNT_FROM_SECONDS 65.0\<rparr>
        else s))"

definition compute_times :: "state \<Rightarrow> state" where
  "compute_times s0 = acc2_times (acc1_times (s0\<lparr>tick_cnt_ms := TCC4_CNT s0\<rparr>))"

subsection \<open>Power state machine (lines 179 to 438)\<close>

text \<open>
  A pass through the \<^verbatim>\<open>switch\<close> ends in \<^verbatim>\<open>break\<close> (the two other machines follow) or in
  \<^verbatim>\<open>continue\<close> (the iteration is over).
\<close>

datatype flow = Break | Continue

text \<open>
  The bring-up of \<^verbatim>\<open>default:\<close> (lines 333 to 437). Of the register writes the model keeps
  those its state has: the power switch outputs are cleared (line 360), the three compare
  interrupts of TCC4 get the high level (line 394), the first 1-second compare is set
  (line 399), high-level interrupts are enabled (line 401). The wait of line 335 is for
  the oscillator the processor is already running from. Only \<^verbatim>\<open>acc1_last\<close> is assigned
  from a pin; \<^verbatim>\<open>acc2_last\<close> is not written.
\<close>

definition power_reset :: "state \<Rightarrow> state" where
  "power_reset s0 =
    (let s = s0\<lparr>V1EN := False, V2EN := False,
                 CCAINTLVL := True, CCBINTLVL := True, CCCINTLVL := True,
                 TCC4_CCC := TCC4_CNT s0 + MAIN_TCNT_FROM_SECONDS 1.0,
                 PMIC_HILVLEN := True\<rparr>;
         s = (if IS_ACC1_ON s then
                (let s = s\<lparr>acc1_last := True\<rparr> in
                 if IS_ACC2_ON s then s\<lparr>power_state := SM_POWER_OUT_ON\<rparr>
                 else s\<lparr>power_state := SM_POWER_OUT_OFF\<rparr>)
              else s\<lparr>acc1_last := False, power_state := SM_POWER_DOWN\<rparr>);
         s = s\<lparr>seconds := 0, minutes := 0\<rparr>;
         s = s\<lparr>wait_minutes := eeprom_wait_minutes s\<rparr>
     in wdt_enable s)"

text \<open>The five labelled cases of the \<^verbatim>\<open>switch\<close>, in the order of the source.\<close>

definition power_down :: "state \<Rightarrow> state \<times> flow" where
  "power_down s0 =
    (let s = V12EN_OFF s0 in
     if acc1_last s then
       (if acc2_last s then (s\<lparr>power_state := SM_POWER_OUT_ON\<rparr>, Break)
        else (s\<lparr>power_state := SM_POWER_OUT_OFF\<rparr>, Break))
     else
       (wdt_enable (sleep_mode SLEEP_SMODE_PDOWN (wdt_disable s)), Continue))"

definition power_out_off :: "state \<Rightarrow> state \<times> flow" where
  "power_out_off s0 =
    (let s = V12EN_OFF s0 in
     if \<not> acc1_last s then (s\<lparr>power_state := SM_POWER_DOWN\<rparr>, Break)
     else if acc2_last s then (s\<lparr>power_state := SM_POWER_OUT_ON\<rparr>, Break)
     else (s, Break))"

definition power_out_on :: "state \<Rightarrow> state \<times> flow" where
  "power_out_on s0 =
    (let s = (if prog_state s0 = SM_PROG_IND_OFF then V12EN_OFF s0 else V12EN_ON s0) in
     if \<not> acc1_last s then (s\<lparr>power_state := SM_POWER_DOWN\<rparr>, Break)
     else if \<not> acc2_last s then (s\<lparr>power_state := SM_POWER_OUT_OFF\<rparr>, Break)
     else (s, Break))"

definition power_out_stay_on :: "state \<Rightarrow> state \<times> flow" where
  "power_out_stay_on s0 =
    (let s = (if prog_state s0 = SM_PROG_IND_OFF then V12EN_OFF s0 else V12EN_ON s0) in
     if \<not> acc1_last s then
       (s\<lparr>power_state := SM_POWER_TIMER, minutes := 0, seconds := 0,
          TCC4_CCC := TCC4_CNT s + MAIN_TCNT_FROM_SECONDS 1.0\<rparr>, Break)
     else if \<not> acc2_last s then
       (if acc2_off_time s > MAIN_TCNT_FROM_SECONDS 0.5
        then (s\<lparr>power_state := SM_POWER_OUT_OFF\<rparr>, Break)
        else (s, Break))
     else (s, Break))"

definition power_timer :: "state \<Rightarrow> state \<times> flow" where
  "power_timer s0 =
    (let s = V12EN_ON s0 in
     if acc1_last s then
       (if acc2_last s then (s\<lparr>power_state := SM_POWER_OUT_ON\<rparr>, Break)
        else (s\<lparr>power_state := SM_POWER_OUT_OFF\<rparr>, Break))
     else if minutes s \<ge> wait_minutes s then
       (s\<lparr>power_state := SM_POWER_DOWN\<rparr>, Break)
     else
       (sleep_mode SLEEP_SMODE_IDLE (wdt_disable s), Continue))"

definition power_sm :: "state \<Rightarrow> state \<times> flow" where
  "power_sm s =
    (case power_state s of
       SM_POWER_DOWN \<Rightarrow> power_down s
     | SM_POWER_OUT_OFF \<Rightarrow> power_out_off s
     | SM_POWER_OUT_ON \<Rightarrow> power_out_on s
     | SM_POWER_OUT_STAY_ON \<Rightarrow> power_out_stay_on s
     | SM_POWER_TIMER \<Rightarrow> power_timer s
     | SM_POWER_RESET \<Rightarrow> (power_reset s, Continue))"

subsection \<open>StayON state machine (lines 449 to 495)\<close>

definition stayon_sm :: "state \<Rightarrow> state" where
  "stayon_sm s =
    (case stayon_state s of
       SM_STAYON_WAIT_ON \<Rightarrow>
         (if acc2_on_time s > MAIN_TCNT_FROM_SECONDS 3.0
          then s\<lparr>stayon_state := SM_STAYON_RESET\<rparr>
          else if \<not> acc2_last s then s\<lparr>stayon_state := SM_STAYON_WAIT_OFF\<rparr>
          else s)
     | SM_STAYON_WAIT_OFF \<Rightarrow>
         (if acc2_off_time s > MAIN_TCNT_FROM_SECONDS 3.0
          then s\<lparr>stayon_state := SM_STAYON_RESET\<rparr>
          else if acc2_last s
          then s\<lparr>stayon_state := SM_STAYON_RESET, power_state := SM_POWER_OUT_STAY_ON\<rparr>
          else s)
     | SM_STAYON_RESET \<Rightarrow>
         (if acc1_last s then
            (if acc2_last s then s\<lparr>stayon_state := SM_STAYON_WAIT_ON\<rparr> else s)
          else s))"

subsection \<open>Programming state machine (lines 498 to 635)\<close>

definition eeprom_write_byte :: "u8 \<Rightarrow> state \<Rightarrow> state" where
  "eeprom_write_byte v s = s\<lparr>eeprom_wait_minutes := v\<rparr>"

definition prog_sm :: "state \<Rightarrow> state" where
  "prog_sm s =
    (case prog_state s of
       SM_PROG_FLASH_ON \<Rightarrow>
         (if acc2_on_time s > MAIN_TCNT_FROM_SECONDS 3.0
          then s\<lparr>prog_state := SM_PROG_RESET\<rparr>
          else if \<not> acc2_last s
          then s\<lparr>flash_count := flash_count s + 1, prog_state := SM_PROG_FLASH_OFF\<rparr>
          else s)
     | SM_PROG_FLASH_OFF \<Rightarrow>
         (if acc2_off_time s > MAIN_TCNT_FROM_SECONDS 7.0
          then s\<lparr>prog_state := SM_PROG_RESET\<rparr>
          else if acc2_last s then
            (if acc2_off_time s > MAIN_TCNT_FROM_SECONDS 4.0
             then s\<lparr>prog_state := SM_PROG_END_ON\<rparr>
             else if acc2_off_time s > MAIN_TCNT_FROM_SECONDS 3.0
             then s\<lparr>prog_state := SM_PROG_RESET\<rparr>
             else s\<lparr>prog_state := SM_PROG_FLASH_ON\<rparr>)
          else s)
     | SM_PROG_END_ON \<Rightarrow>
         (if acc2_on_time s > MAIN_TCNT_FROM_SECONDS 7.0
          then s\<lparr>prog_state := SM_PROG_RESET\<rparr>
          else if \<not> acc2_last s then
            (if acc2_on_time s > MAIN_TCNT_FROM_SECONDS 4.0
             then s\<lparr>prog_state := SM_PROG_END_OFF\<rparr>
             else s\<lparr>prog_state := SM_PROG_RESET\<rparr>)
          else s)
     | SM_PROG_END_OFF \<Rightarrow>
         (if acc2_off_time s > MAIN_TCNT_FROM_SECONDS 7.0
          then s\<lparr>prog_state := SM_PROG_RESET\<rparr>
          else if acc2_last s then
            (if acc2_off_time s > MAIN_TCNT_FROM_SECONDS 4.0 then
               (let s = (if flash_count s > 25 then s\<lparr>flash_count := 25\<rparr> else s);
                    s = s\<lparr>flash_count := flash_count s * 10\<rparr>;
                    s = eeprom_write_byte (flash_count s) s;
                    s = s\<lparr>wait_minutes := flash_count s\<rparr>
                in s\<lparr>prog_state := SM_PROG_IND_ON\<rparr>)
             else s\<lparr>prog_state := SM_PROG_RESET\<rparr>)
          else s)
     | SM_PROG_IND_ON \<Rightarrow>
         (if \<not> acc2_last s then s\<lparr>prog_state := SM_PROG_RESET\<rparr>
          else if acc2_on_time s > MAIN_TCNT_FROM_SECONDS 2.0
          then s\<lparr>prog_state := SM_PROG_IND_OFF\<rparr>
          else s)
     | SM_PROG_IND_OFF \<Rightarrow>
         (if \<not> acc2_last s then s\<lparr>prog_state := SM_PROG_RESET\<rparr>
          else if acc2_on_time s > MAIN_TCNT_FROM_SECONDS 3.0
          then s\<lparr>prog_state := SM_PROG_RESET\<rparr>
          else s)
     | SM_PROG_RESET \<Rightarrow>
         (if acc1_on_time s \<le> MAIN_TCNT_FROM_SECONDS 60.0 then
            (if acc2_last s
             then s\<lparr>flash_count := 0, prog_state := SM_PROG_FLASH_ON\<rparr>
             else s)
          else s))"

subsection \<open>One iteration of \<^verbatim>\<open>while (TRUE)\<close> (lines 124 to 636)\<close>

text \<open>
  The handlers write \<^verbatim>\<open>acc1_last\<close>, \<^verbatim>\<open>acc2_last\<close> and the start times; the loop reads
  them. The model runs an iteration as one step, the handlers between iterations.
\<close>

definition main_loop :: "state \<Rightarrow> state" where
  "main_loop s0 =
    (let s = wdt_reset (s0\<lparr>slept := None\<rparr>);
         s = compute_times s
     in case power_sm s of
          (s, Continue) \<Rightarrow> s
        | (s, Break) \<Rightarrow>
            if \<not> acc1_last s
            then s\<lparr>stayon_state := SM_STAYON_RESET, prog_state := SM_PROG_RESET\<rparr>
            else prog_sm (stayon_sm s))"

section \<open>The interrupt handlers (lines 644 to 748)\<close>

definition PORTD_INT_vect :: "state \<Rightarrow> state" where
  "PORTD_INT_vect s0 =
    (let s = s0\<lparr>TCC4_CCA := TCC4_CNT s0 + MAIN_TCNT_FROM_SECONDS DEBOUNCE_TIME\<rparr>;
         s = s\<lparr>CCAINTLVL := True\<rparr>
     in if \<not> acc1_last s
        then s\<lparr>acc1_last := True, acc1_on_start_time := TCC4_CNT s\<rparr>
        else s)"

definition PORTA_INT_vect :: "state \<Rightarrow> state" where
  "PORTA_INT_vect s0 =
    (let s = s0\<lparr>TCC4_CCB := TCC4_CNT s0 + MAIN_TCNT_FROM_SECONDS DEBOUNCE_TIME\<rparr>;
         s = s\<lparr>CCBINTLVL := True\<rparr>
     in if \<not> acc2_last s
        then s\<lparr>acc2_last := True, acc2_on_start_time := TCC4_CNT s\<rparr>
        else s)"

definition TCC4_CCA_vect :: "state \<Rightarrow> state" where
  "TCC4_CCA_vect s0 =
    (let s = (if acc1_last s0 then
                (if \<not> IS_ACC1_ON s0
                 then s0\<lparr>acc1_last := False, acc1_off_start_time := TCC4_CNT s0\<rparr>
                 else s0)
              else s0)
     in s\<lparr>CCAINTLVL := False\<rparr>)"

definition TCC4_CCB_vect :: "state \<Rightarrow> state" where
  "TCC4_CCB_vect s0 =
    (let s = (if acc2_last s0 then
                (if \<not> IS_ACC2_ON s0
                 then s0\<lparr>acc2_last := False, acc2_off_start_time := TCC4_CNT s0\<rparr>
                 else s0)
              else s0)
     in s\<lparr>CCBINTLVL := False\<rparr>)"

definition TCC4_CCC_vect :: "state \<Rightarrow> state" where
  "TCC4_CCC_vect s0 =
    (let s = s0\<lparr>TCC4_CCC := TCC4_CNT s0 + MAIN_TCNT_FROM_SECONDS 1.0\<rparr>;
         s = s\<lparr>seconds := seconds s + 1\<rparr>
     in if seconds s = 60 then
          (let s = s\<lparr>seconds := 0\<rparr>;
               s = s\<lparr>minutes := minutes s + 1\<rparr>
           in if minutes s > 60 then s\<lparr>minutes := 60\<rparr> else s)
        else s)"

section \<open>The firmware in its environment\<close>

text \<open>
  Modelled from the spec: the timer and pin hardware, which is not code of the repository.
  Section 3 of the spec has a tick counter of one millisecond that wraps at 65.536 s,
  section 6 names "three one-shot/periodic timer sources scheduled as explicit compare
  values against TimeBase" and an edge interrupt source that "notifies on any logic
  transition per input line". So a tick adds one to \<^verbatim>\<open>TCC4.CNT\<close> and runs the handler of
  every compare channel whose compare value the counter has reached and whose interrupt
  level is on; an edge inverts the raw pin and runs the port's handler. No handler runs
  before the bring-up has enabled high-level interrupts.
\<close>

definition compare_A :: "state \<Rightarrow> state" where
  "compare_A s =
    (if PMIC_HILVLEN s \<and> CCAINTLVL s \<and> TCC4_CNT s = TCC4_CCA s
     then TCC4_CCA_vect s else s)"

definition compare_B :: "state \<Rightarrow> state" where
  "compare_B s =
    (if PMIC_HILVLEN s \<and> CCBINTLVL s \<and> TCC4_CNT s = TCC4_CCB s
     then TCC4_CCB_vect s else s)"

definition compare_C :: "state \<Rightarrow> state" where
  "compare_C s =
    (if PMIC_HILVLEN s \<and> CCCINTLVL s \<and> TCC4_CNT s = TCC4_CCC s
     then TCC4_CCC_vect s else s)"

definition tick :: "state \<Rightarrow> state" where
  "tick s = compare_C (compare_B (compare_A (s\<lparr>TCC4_CNT := TCC4_CNT s + 1\<rparr>)))"

datatype channel = ACC1 | ACC2

fun edge :: "channel \<Rightarrow> state \<Rightarrow> state" where
  "edge ACC1 s0 =
    (let s = s0\<lparr>ACC1_pin := \<not> ACC1_pin s0\<rparr>
     in if PMIC_HILVLEN s then PORTD_INT_vect s else s)"
| "edge ACC2 s0 =
    (let s = s0\<lparr>ACC2_pin := \<not> ACC2_pin s0\<rparr>
     in if PMIC_HILVLEN s then PORTA_INT_vect s else s)"

text \<open>
  What happens to the system: an iteration of the polling loop, a tick of the time base,
  an edge on one of the two inputs.
\<close>

datatype event = Loop | Tick | Edge channel

fun step :: "event \<Rightarrow> state \<Rightarrow> state" where
  "step Loop s = main_loop s"
| "step Tick s = tick s"
| "step (Edge c) s = edge c s"

definition run :: "event list \<Rightarrow> state \<Rightarrow> state" where
  "run evs s = fold step evs s"

text \<open>
  The state in which \<^verbatim>\<open>main\<close> enters its loop: the locals as initialised on lines 110 to
  119, the globals zero (lines 95 to 106; the two \<^verbatim>\<open>_last\<close> variables have no initialiser
  and are zero as all statics are), the watchdog disabled (line 122), the interrupt
  controller and the outputs as the processor's reset leaves them. The counter, the
  compare values, the pins, the EEPROM byte and the uninitialised \<^verbatim>\<open>wait_minutes\<close> are
  free.
\<close>

definition boot_state :: "state \<Rightarrow> bool" where
  "boot_state s \<longleftrightarrow>
     power_state s = SM_POWER_RESET \<and> stayon_state s = SM_STAYON_RESET \<and>
     prog_state s = SM_PROG_RESET \<and>
     acc1_on_time s = 0 \<and> acc1_off_time s = 0 \<and> acc2_on_time s = 0 \<and>
     acc2_off_time s = 0 \<and> flash_count s = 0 \<and>
     seconds s = 0 \<and> minutes s = 0 \<and>
     \<not> acc1_last s \<and> acc1_on_start_time s = 0 \<and> acc1_off_start_time s = 0 \<and>
     \<not> acc2_last s \<and> acc2_on_start_time s = 0 \<and> acc2_off_start_time s = 0 \<and>
     \<not> WDT_ENABLE s \<and> \<not> PMIC_HILVLEN s \<and>
     \<not> CCAINTLVL s \<and> \<not> CCBINTLVL s \<and> \<not> CCCINTLVL s \<and>
     \<not> V1EN s \<and> \<not> V2EN s \<and> slept s = None"

inductive reachable :: "state \<Rightarrow> bool" where
  boot: "boot_state s \<Longrightarrow> reachable s"
| step: "reachable s \<Longrightarrow> reachable (step e s)"







fun edge_vect :: "channel \<Rightarrow> state \<Rightarrow> state" where
  "edge_vect ACC1 s = PORTD_INT_vect s"
| "edge_vect ACC2 s = PORTA_INT_vect s"


text \<open>
  A concrete start: counter and compare registers zero, both inputs high, the EEPROM byte
  at its programmed default of 30 (\<^verbatim>\<open>DEFAULT_WAIT_MINUTES\<close>).
\<close>

definition boot0 :: state where
  "boot0 =
    \<lparr>TCC4_CNT = 0, TCC4_CCA = 0, TCC4_CCB = 0, TCC4_CCC = 0,
     CCAINTLVL = False, CCBINTLVL = False, CCCINTLVL = False, PMIC_HILVLEN = False,
     ACC1_pin = True, ACC2_pin = True, V1EN = False, V2EN = False,
     WDT_ENABLE = False, slept = None, eeprom_wait_minutes = 30,
     seconds = 0, minutes = 0,
     acc1_last = False, acc1_on_start_time = 0, acc1_off_start_time = 0,
     acc2_last = False, acc2_on_start_time = 0, acc2_off_start_time = 0,
     power_state = SM_POWER_RESET, stayon_state = SM_STAYON_RESET,
     prog_state = SM_PROG_RESET, wait_minutes = 0,
     acc1_on_time = 0, acc1_off_time = 0, acc2_on_time = 0, acc2_off_time = 0,
     tick_cnt_ms = 0, flash_count = 0\<rparr>"

section \<open>Notions the claims are stated with\<close>

text \<open>
  What holds of every state the system reaches: the minutes counter is at most 60; before
  the bring-up no handler has run, so both levels are still OFF; and the two gesture
  machines are in their reset states whenever the power machine is in Reset, Down or
  Timer.
\<close>

definition inv :: "state \<Rightarrow> bool" where
  "inv s \<longleftrightarrow>
     minutes s \<le> 60 \<and>
     (power_state s = SM_POWER_RESET \<longrightarrow>
        \<not> PMIC_HILVLEN s \<and> \<not> acc1_last s \<and> \<not> acc2_last s) \<and>
     (power_state s = SM_POWER_RESET \<or> power_state s = SM_POWER_DOWN \<or>
      power_state s = SM_POWER_TIMER \<longrightarrow>
        stayon_state s = SM_STAYON_RESET \<and> prog_state s = SM_PROG_RESET)"


text \<open>
  The two places that call \<^verbatim>\<open>wdt_enable\<close>: the bring-up of Reset (line 434) and the
  wake-up from the power-down sleep of Down (line 204). \<open>wdt_quiet evs s\<close>: no iteration
  of the run \<open>evs\<close> from \<open>s\<close> is one of them.
\<close>

definition wdt_enabling :: "state \<Rightarrow> bool" where
  "wdt_enabling s \<longleftrightarrow>
     power_state s = SM_POWER_RESET \<or> slept (main_loop s) = Some SLEEP_SMODE_PDOWN"

fun wdt_quiet :: "event list \<Rightarrow> state \<Rightarrow> bool" where
  "wdt_quiet [] s = True"
| "wdt_quiet (e # es) s = (\<not> (e = Loop \<and> wdt_enabling s) \<and> wdt_quiet es (step e s))"

text \<open>
  A run for the witnesses: bring-up with both inputs high, an edge on ACC2 (the level goes
  ON, the pin is low), 50 ms later the level is OFF, a second edge within 3 s completes
  the stay-on gesture; then ACC1 drops and, 50 ms later, the power state is Timer.
\<close>

definition stay_on_then_off :: "event list" where
  "stay_on_then_off =
     [Loop, Edge ACC2, Loop] @ replicate 50 Tick @ [Loop, Edge ACC2, Loop, Edge ACC1]
     @ replicate 50 Tick @ [Loop]"

definition boot250 :: state where
  "boot250 = boot0\<lparr>eeprom_wait_minutes := 250\<rparr>"

text \<open>The same start with ACC2 low.\<close>

definition boot1 :: state where
  "boot1 = boot0\<lparr>ACC2_pin := False\<rparr>"

section \<open>Facts about the model\<close>

subsection \<open>The macro's values\<close>

lemma tcnt_vals:
  "MAIN_TCNT_FROM_SECONDS 65 = 65000"
  "MAIN_TCNT_FROM_SECONDS 60 = 60000"
  "MAIN_TCNT_FROM_SECONDS 7 = 7000"
  "MAIN_TCNT_FROM_SECONDS 4 = 4000"
  "MAIN_TCNT_FROM_SECONDS 3 = 3000"
  "MAIN_TCNT_FROM_SECONDS 2 = 2000"
  "MAIN_TCNT_FROM_SECONDS 1 = 1000"
  "MAIN_TCNT_FROM_SECONDS (1 / 2) = 500"
  "MAIN_TCNT_FROM_SECONDS DEBOUNCE_TIME = 50"
  by (simp_all add: MAIN_TCNT_FROM_SECONDS_def DEBOUNCE_TIME_def)

subsection \<open>What each part of an iteration writes\<close>

lemma acc1_times_sel:
  "acc1_on_time (acc1_times s) =
     (if acc1_last s
      then (if tick_cnt_ms s - acc1_on_start_time s > 65000 then 65000
            else tick_cnt_ms s - acc1_on_start_time s)
      else acc1_on_time s)"
  "acc1_off_time (acc1_times s) =
     (if acc1_last s then acc1_off_time s
      else (if tick_cnt_ms s - acc1_off_start_time s > 65000 then 65000
            else tick_cnt_ms s - acc1_off_start_time s))"
  "acc1_on_start_time (acc1_times s) =
     (if acc1_last s \<and> tick_cnt_ms s - acc1_on_start_time s > 65000
      then tick_cnt_ms s - 65000 else acc1_on_start_time s)"
  "acc1_off_start_time (acc1_times s) =
     (if \<not> acc1_last s \<and> tick_cnt_ms s - acc1_off_start_time s > 65000
      then tick_cnt_ms s - 65000 else acc1_off_start_time s)"
  by (simp_all add: acc1_times_def Let_def tcnt_vals)

lemma acc2_times_sel:
  "acc2_on_time (acc2_times s) =
     (if acc2_last s
      then (if tick_cnt_ms s - acc2_on_start_time s > 65000 then 65000
            else tick_cnt_ms s - acc2_on_start_time s)
      else acc2_on_time s)"
  "acc2_off_time (acc2_times s) =
     (if acc2_last s then acc2_off_time s
      else (if tick_cnt_ms s - acc2_off_start_time s > 65000 then 65000
            else tick_cnt_ms s - acc2_off_start_time s))"
  "acc2_on_start_time (acc2_times s) =
     (if acc2_last s \<and> tick_cnt_ms s - acc2_on_start_time s > 65000
      then tick_cnt_ms s - 65000 else acc2_on_start_time s)"
  "acc2_off_start_time (acc2_times s) =
     (if \<not> acc2_last s \<and> tick_cnt_ms s - acc2_off_start_time s > 65000
      then tick_cnt_ms s - 65000 else acc2_off_start_time s)"
  by (simp_all add: acc2_times_def Let_def tcnt_vals)

lemma acc1_times_frame:
  "tick_cnt_ms (acc1_times s) = tick_cnt_ms s"
  "TCC4_CNT (acc1_times s) = TCC4_CNT s"
  "acc1_last (acc1_times s) = acc1_last s"
  "acc2_last (acc1_times s) = acc2_last s"
  "acc2_on_time (acc1_times s) = acc2_on_time s"
  "acc2_off_time (acc1_times s) = acc2_off_time s"
  "acc2_on_start_time (acc1_times s) = acc2_on_start_time s"
  "acc2_off_start_time (acc1_times s) = acc2_off_start_time s"
  "power_state (acc1_times s) = power_state s"
  "stayon_state (acc1_times s) = stayon_state s"
  "prog_state (acc1_times s) = prog_state s"
  "flash_count (acc1_times s) = flash_count s"
  "minutes (acc1_times s) = minutes s"
  "wait_minutes (acc1_times s) = wait_minutes s"
  "WDT_ENABLE (acc1_times s) = WDT_ENABLE s"
  "PMIC_HILVLEN (acc1_times s) = PMIC_HILVLEN s"
  "eeprom_wait_minutes (acc1_times s) = eeprom_wait_minutes s"
  "slept (acc1_times s) = slept s"
  by (simp_all add: acc1_times_def Let_def)


lemma acc2_times_frame:
  "tick_cnt_ms (acc2_times s) = tick_cnt_ms s"
  "TCC4_CNT (acc2_times s) = TCC4_CNT s"
  "acc1_last (acc2_times s) = acc1_last s"
  "acc2_last (acc2_times s) = acc2_last s"
  "acc1_on_time (acc2_times s) = acc1_on_time s"
  "acc1_off_time (acc2_times s) = acc1_off_time s"
  "acc1_on_start_time (acc2_times s) = acc1_on_start_time s"
  "acc1_off_start_time (acc2_times s) = acc1_off_start_time s"
  "power_state (acc2_times s) = power_state s"
  "stayon_state (acc2_times s) = stayon_state s"
  "prog_state (acc2_times s) = prog_state s"
  "flash_count (acc2_times s) = flash_count s"
  "minutes (acc2_times s) = minutes s"
  "wait_minutes (acc2_times s) = wait_minutes s"
  "WDT_ENABLE (acc2_times s) = WDT_ENABLE s"
  "PMIC_HILVLEN (acc2_times s) = PMIC_HILVLEN s"
  "eeprom_wait_minutes (acc2_times s) = eeprom_wait_minutes s"
  "slept (acc2_times s) = slept s"
  by (simp_all add: acc2_times_def Let_def)

lemma compute_times_frame:
  "TCC4_CNT (compute_times s) = TCC4_CNT s"
  "acc1_last (compute_times s) = acc1_last s"
  "acc2_last (compute_times s) = acc2_last s"
  "power_state (compute_times s) = power_state s"
  "stayon_state (compute_times s) = stayon_state s"
  "prog_state (compute_times s) = prog_state s"
  "flash_count (compute_times s) = flash_count s"
  "minutes (compute_times s) = minutes s"
  "wait_minutes (compute_times s) = wait_minutes s"
  "WDT_ENABLE (compute_times s) = WDT_ENABLE s"
  "PMIC_HILVLEN (compute_times s) = PMIC_HILVLEN s"
  "eeprom_wait_minutes (compute_times s) = eeprom_wait_minutes s"
  "slept (compute_times s) = slept s"
  by (simp_all add: compute_times_def acc1_times_frame acc2_times_frame)

lemma compute_times_sel:
  "acc1_on_time (compute_times s) =
     (if acc1_last s
      then (if TCC4_CNT s - acc1_on_start_time s > 65000 then 65000
            else TCC4_CNT s - acc1_on_start_time s)
      else acc1_on_time s)"
  "acc1_off_time (compute_times s) =
     (if acc1_last s then acc1_off_time s
      else (if TCC4_CNT s - acc1_off_start_time s > 65000 then 65000
            else TCC4_CNT s - acc1_off_start_time s))"
  "acc1_on_start_time (compute_times s) =
     (if acc1_last s \<and> TCC4_CNT s - acc1_on_start_time s > 65000
      then TCC4_CNT s - 65000 else acc1_on_start_time s)"
  "acc1_off_start_time (compute_times s) =
     (if \<not> acc1_last s \<and> TCC4_CNT s - acc1_off_start_time s > 65000
      then TCC4_CNT s - 65000 else acc1_off_start_time s)"
  "acc2_on_time (compute_times s) =
     (if acc2_last s
      then (if TCC4_CNT s - acc2_on_start_time s > 65000 then 65000
            else TCC4_CNT s - acc2_on_start_time s)
      else acc2_on_time s)"
  "acc2_off_time (compute_times s) =
     (if acc2_last s then acc2_off_time s
      else (if TCC4_CNT s - acc2_off_start_time s > 65000 then 65000
            else TCC4_CNT s - acc2_off_start_time s))"
  "acc2_on_start_time (compute_times s) =
     (if acc2_last s \<and> TCC4_CNT s - acc2_on_start_time s > 65000
      then TCC4_CNT s - 65000 else acc2_on_start_time s)"
  "acc2_off_start_time (compute_times s) =
     (if \<not> acc2_last s \<and> TCC4_CNT s - acc2_off_start_time s > 65000
      then TCC4_CNT s - 65000 else acc2_off_start_time s)"
  by (simp_all add: compute_times_def acc1_times_sel acc2_times_sel
        acc1_times_frame acc2_times_frame)

lemma main_loop_eq:
  "main_loop s =
    (let t = compute_times (s\<lparr>slept := None\<rparr>); u = fst (power_sm t) in
     if snd (power_sm t) = Continue then u
     else if \<not> acc1_last u
     then u\<lparr>stayon_state := SM_STAYON_RESET, prog_state := SM_PROG_RESET\<rparr>
     else prog_sm (stayon_sm u))"
  by (simp add: main_loop_def wdt_reset_def Let_def split: prod.splits flow.splits)

lemma power_sm_flow:
  "snd (power_sm s) =
    (if power_state s = SM_POWER_RESET \<or>
        (power_state s = SM_POWER_DOWN \<and> \<not> acc1_last s) \<or>
        (power_state s = SM_POWER_TIMER \<and> \<not> acc1_last s \<and> minutes s < wait_minutes s)
     then Continue else Break)"
  by (auto simp: power_sm_def power_down_def power_out_off_def power_out_on_def
        power_out_stay_on_def power_timer_def V12EN_ON_def V12EN_OFF_def Let_def
      split: POWER_SM.splits)

lemma power_sm_V12EN:
  "V1EN (fst (power_sm s)) =
     (case power_state s of
        SM_POWER_OUT_ON \<Rightarrow> prog_state s \<noteq> SM_PROG_IND_OFF
      | SM_POWER_OUT_STAY_ON \<Rightarrow> prog_state s \<noteq> SM_PROG_IND_OFF
      | SM_POWER_TIMER \<Rightarrow> True
      | _ \<Rightarrow> False)"
  "V2EN (fst (power_sm s)) = V1EN (fst (power_sm s))"
  by (simp_all add: power_sm_def power_down_def power_out_off_def power_out_on_def
        power_out_stay_on_def power_timer_def power_reset_def wdt_enable_def
        wdt_disable_def sleep_mode_def IS_ACC1_ON_def IS_ACC2_ON_def V12EN_ON_def
        V12EN_OFF_def Let_def split: POWER_SM.splits)

lemma stayon_sm_frame:
  "V1EN (stayon_sm s) = V1EN s"
  "V2EN (stayon_sm s) = V2EN s"
  "WDT_ENABLE (stayon_sm s) = WDT_ENABLE s"
  "prog_state (stayon_sm s) = prog_state s"
  "flash_count (stayon_sm s) = flash_count s"
  "acc1_last (stayon_sm s) = acc1_last s"
  "acc2_last (stayon_sm s) = acc2_last s"
  "acc1_on_time (stayon_sm s) = acc1_on_time s"
  "acc2_on_time (stayon_sm s) = acc2_on_time s"
  "acc2_off_time (stayon_sm s) = acc2_off_time s"
  "minutes (stayon_sm s) = minutes s"
  "wait_minutes (stayon_sm s) = wait_minutes s"
  "eeprom_wait_minutes (stayon_sm s) = eeprom_wait_minutes s"
  "PMIC_HILVLEN (stayon_sm s) = PMIC_HILVLEN s"
  by (simp_all add: stayon_sm_def split: STAYON_SM.splits)

lemma prog_sm_frame:
  "V1EN (prog_sm s) = V1EN s"
  "V2EN (prog_sm s) = V2EN s"
  "WDT_ENABLE (prog_sm s) = WDT_ENABLE s"
  "power_state (prog_sm s) = power_state s"
  "stayon_state (prog_sm s) = stayon_state s"
  "acc1_last (prog_sm s) = acc1_last s"
  "acc2_last (prog_sm s) = acc2_last s"
  "minutes (prog_sm s) = minutes s"
  "PMIC_HILVLEN (prog_sm s) = PMIC_HILVLEN s"
  by (simp_all add: prog_sm_def eeprom_write_byte_def Let_def split: PROG_SM.splits)

lemma power_sm_frame:
  "acc2_last (fst (power_sm s)) = acc2_last s"
  "stayon_state (fst (power_sm s)) = stayon_state s"
  "prog_state (fst (power_sm s)) = prog_state s"
  "flash_count (fst (power_sm s)) = flash_count s"
  "acc1_on_time (fst (power_sm s)) = acc1_on_time s"
  "acc2_on_time (fst (power_sm s)) = acc2_on_time s"
  "acc2_off_time (fst (power_sm s)) = acc2_off_time s"
  "eeprom_wait_minutes (fst (power_sm s)) = eeprom_wait_minutes s"
  by (simp_all add: power_sm_def power_down_def power_out_off_def power_out_on_def
        power_out_stay_on_def power_timer_def power_reset_def wdt_enable_def
        wdt_disable_def sleep_mode_def IS_ACC1_ON_def IS_ACC2_ON_def V12EN_ON_def
        V12EN_OFF_def Let_def split: POWER_SM.splits)

lemma power_sm_acc1_last:
  "acc1_last (fst (power_sm s)) =
     (if power_state s = SM_POWER_RESET then ACC1_pin s else acc1_last s)"
  by (simp add: power_sm_def power_down_def power_out_off_def power_out_on_def
        power_out_stay_on_def power_timer_def power_reset_def wdt_enable_def
        wdt_disable_def sleep_mode_def IS_ACC1_ON_def IS_ACC2_ON_def V12EN_ON_def
        V12EN_OFF_def Let_def split: POWER_SM.splits)

lemma power_sm_power_state:
  "power_state (fst (power_sm s)) =
     (case power_state s of
        SM_POWER_RESET \<Rightarrow>
          (if ACC1_pin s then (if ACC2_pin s then SM_POWER_OUT_ON else SM_POWER_OUT_OFF)
           else SM_POWER_DOWN)
      | SM_POWER_DOWN \<Rightarrow>
          (if acc1_last s then (if acc2_last s then SM_POWER_OUT_ON else SM_POWER_OUT_OFF)
           else SM_POWER_DOWN)
      | SM_POWER_OUT_OFF \<Rightarrow>
          (if \<not> acc1_last s then SM_POWER_DOWN
           else if acc2_last s then SM_POWER_OUT_ON else SM_POWER_OUT_OFF)
      | SM_POWER_OUT_ON \<Rightarrow>
          (if \<not> acc1_last s then SM_POWER_DOWN
           else if \<not> acc2_last s then SM_POWER_OUT_OFF else SM_POWER_OUT_ON)
      | SM_POWER_OUT_STAY_ON \<Rightarrow>
          (if \<not> acc1_last s then SM_POWER_TIMER
           else if \<not> acc2_last s \<and> acc2_off_time s > 500 then SM_POWER_OUT_OFF
           else SM_POWER_OUT_STAY_ON)
      | SM_POWER_TIMER \<Rightarrow>
          (if acc1_last s then (if acc2_last s then SM_POWER_OUT_ON else SM_POWER_OUT_OFF)
           else if minutes s \<ge> wait_minutes s then SM_POWER_DOWN else SM_POWER_TIMER))"
  by (simp add: power_sm_def power_down_def power_out_off_def power_out_on_def
        power_out_stay_on_def power_timer_def power_reset_def wdt_enable_def
        wdt_disable_def sleep_mode_def IS_ACC1_ON_def IS_ACC2_ON_def V12EN_ON_def
        V12EN_OFF_def Let_def tcnt_vals split: POWER_SM.splits)

lemma power_sm_wdt:
  "WDT_ENABLE (fst (power_sm s)) =
     (if power_state s = SM_POWER_RESET \<or> (power_state s = SM_POWER_DOWN \<and> \<not> acc1_last s)
      then True
      else if power_state s = SM_POWER_TIMER \<and> \<not> acc1_last s \<and> minutes s < wait_minutes s
      then False else WDT_ENABLE s)"
  "slept (fst (power_sm s)) =
     (if power_state s = SM_POWER_DOWN \<and> \<not> acc1_last s then Some SLEEP_SMODE_PDOWN
      else if power_state s = SM_POWER_TIMER \<and> \<not> acc1_last s \<and> minutes s < wait_minutes s
      then Some SLEEP_SMODE_IDLE else slept s)"
  by (auto simp: power_sm_def power_down_def power_out_off_def power_out_on_def
        power_out_stay_on_def power_timer_def power_reset_def wdt_enable_def
        wdt_disable_def sleep_mode_def IS_ACC1_ON_def IS_ACC2_ON_def V12EN_ON_def
        V12EN_OFF_def Let_def split: POWER_SM.splits)

lemma power_sm_minutes:
  "minutes (fst (power_sm s)) =
     (if power_state s = SM_POWER_RESET \<or>
         (power_state s = SM_POWER_OUT_STAY_ON \<and> \<not> acc1_last s)
      then 0 else minutes s)"
  "PMIC_HILVLEN (fst (power_sm s)) = (power_state s = SM_POWER_RESET \<or> PMIC_HILVLEN s)"
  by (auto simp: power_sm_def power_down_def power_out_off_def power_out_on_def
        power_out_stay_on_def power_timer_def power_reset_def wdt_enable_def
        wdt_disable_def sleep_mode_def IS_ACC1_ON_def IS_ACC2_ON_def V12EN_ON_def
        V12EN_OFF_def Let_def split: POWER_SM.splits)

lemma stayon_sm_sel:
  "stayon_state (stayon_sm s) =
     (case stayon_state s of
        SM_STAYON_RESET \<Rightarrow>
          (if acc1_last s \<and> acc2_last s then SM_STAYON_WAIT_ON else SM_STAYON_RESET)
      | SM_STAYON_WAIT_ON \<Rightarrow>
          (if acc2_on_time s > 3000 then SM_STAYON_RESET
           else if \<not> acc2_last s then SM_STAYON_WAIT_OFF else SM_STAYON_WAIT_ON)
      | SM_STAYON_WAIT_OFF \<Rightarrow>
          (if acc2_off_time s > 3000 then SM_STAYON_RESET
           else if acc2_last s then SM_STAYON_RESET else SM_STAYON_WAIT_OFF))"
  "power_state (stayon_sm s) =
     (if stayon_state s = SM_STAYON_WAIT_OFF \<and> \<not> acc2_off_time s > 3000 \<and> acc2_last s
      then SM_POWER_OUT_STAY_ON else power_state s)"
  by (simp_all add: stayon_sm_def tcnt_vals split: STAYON_SM.splits)



lemma prog_sm_persist:
  "eeprom_wait_minutes (prog_sm s) =
     (if prog_state s = SM_PROG_END_OFF \<and> \<not> acc2_off_time s > 7000 \<and> acc2_last s \<and>
         acc2_off_time s > 4000
      then (if flash_count s > 25 then 25 else flash_count s) * 10
      else eeprom_wait_minutes s)"
  "wait_minutes (prog_sm s) =
     (if prog_state s = SM_PROG_END_OFF \<and> \<not> acc2_off_time s > 7000 \<and> acc2_last s \<and>
         acc2_off_time s > 4000
      then (if flash_count s > 25 then 25 else flash_count s) * 10
      else wait_minutes s)"
  by (simp_all add: prog_sm_def eeprom_write_byte_def Let_def tcnt_vals split: PROG_SM.splits)

lemma compute_times_slept:
  "acc1_on_time (compute_times (s\<lparr>slept := x\<rparr>)) = acc1_on_time (compute_times s)"
  "acc1_off_time (compute_times (s\<lparr>slept := x\<rparr>)) = acc1_off_time (compute_times s)"
  "acc2_on_time (compute_times (s\<lparr>slept := x\<rparr>)) = acc2_on_time (compute_times s)"
  "acc2_off_time (compute_times (s\<lparr>slept := x\<rparr>)) = acc2_off_time (compute_times s)"
  by (simp_all add: compute_times_sel)

lemmas ml_simps = main_loop_eq Let_def power_sm_flow power_sm_frame power_sm_acc1_last
  compute_times_frame compute_times_slept stayon_sm_frame prog_sm_frame

lemma clamp_le: "(if 65000 < x then 65000 else x) \<le> (65000 :: u16)"
  by (simp add: not_less)

subsection \<open>What each handler writes\<close>

lemma PORTD_INT_vect_sel:
  "acc1_last (PORTD_INT_vect s) = True"
  "acc1_on_start_time (PORTD_INT_vect s) = (if acc1_last s then acc1_on_start_time s else TCC4_CNT s)"
  "acc1_off_start_time (PORTD_INT_vect s) = acc1_off_start_time s"
  "TCC4_CCA (PORTD_INT_vect s) = TCC4_CNT s + 50"
  "CCAINTLVL (PORTD_INT_vect s) = True"
  "TCC4_CNT (PORTD_INT_vect s) = TCC4_CNT s"
  "ACC1_pin (PORTD_INT_vect s) = ACC1_pin s"
  "acc2_last (PORTD_INT_vect s) = acc2_last s"
  "acc2_on_start_time (PORTD_INT_vect s) = acc2_on_start_time s"
  "acc2_off_start_time (PORTD_INT_vect s) = acc2_off_start_time s"
  "TCC4_CCB (PORTD_INT_vect s) = TCC4_CCB s"
  "CCBINTLVL (PORTD_INT_vect s) = CCBINTLVL s"
  "ACC2_pin (PORTD_INT_vect s) = ACC2_pin s"
  "PMIC_HILVLEN (PORTD_INT_vect s) = PMIC_HILVLEN s"
  "power_state (PORTD_INT_vect s) = power_state s"
  "stayon_state (PORTD_INT_vect s) = stayon_state s"
  "prog_state (PORTD_INT_vect s) = prog_state s"
  "minutes (PORTD_INT_vect s) = minutes s"
  "WDT_ENABLE (PORTD_INT_vect s) = WDT_ENABLE s"
  by (simp_all add: PORTD_INT_vect_def Let_def tcnt_vals)

lemma PORTA_INT_vect_sel:
  "acc2_last (PORTA_INT_vect s) = True"
  "acc2_on_start_time (PORTA_INT_vect s) = (if acc2_last s then acc2_on_start_time s else TCC4_CNT s)"
  "acc2_off_start_time (PORTA_INT_vect s) = acc2_off_start_time s"
  "TCC4_CCB (PORTA_INT_vect s) = TCC4_CNT s + 50"
  "CCBINTLVL (PORTA_INT_vect s) = True"
  "TCC4_CNT (PORTA_INT_vect s) = TCC4_CNT s"
  "ACC2_pin (PORTA_INT_vect s) = ACC2_pin s"
  "acc1_last (PORTA_INT_vect s) = acc1_last s"
  "acc1_on_start_time (PORTA_INT_vect s) = acc1_on_start_time s"
  "acc1_off_start_time (PORTA_INT_vect s) = acc1_off_start_time s"
  "TCC4_CCA (PORTA_INT_vect s) = TCC4_CCA s"
  "CCAINTLVL (PORTA_INT_vect s) = CCAINTLVL s"
  "ACC1_pin (PORTA_INT_vect s) = ACC1_pin s"
  "PMIC_HILVLEN (PORTA_INT_vect s) = PMIC_HILVLEN s"
  "power_state (PORTA_INT_vect s) = power_state s"
  "stayon_state (PORTA_INT_vect s) = stayon_state s"
  "prog_state (PORTA_INT_vect s) = prog_state s"
  "minutes (PORTA_INT_vect s) = minutes s"
  "WDT_ENABLE (PORTA_INT_vect s) = WDT_ENABLE s"
  by (simp_all add: PORTA_INT_vect_def Let_def tcnt_vals)

lemma TCC4_CCA_vect_sel:
  "acc1_last (TCC4_CCA_vect s) = (acc1_last s \<and> ACC1_pin s)"
  "acc1_off_start_time (TCC4_CCA_vect s) =
     (if acc1_last s \<and> \<not> ACC1_pin s then TCC4_CNT s else acc1_off_start_time s)"
  "acc1_on_start_time (TCC4_CCA_vect s) = acc1_on_start_time s"
  "TCC4_CCA (TCC4_CCA_vect s) = TCC4_CCA s"
  "CCAINTLVL (TCC4_CCA_vect s) = False"
  "TCC4_CNT (TCC4_CCA_vect s) = TCC4_CNT s"
  "ACC1_pin (TCC4_CCA_vect s) = ACC1_pin s"
  "acc2_last (TCC4_CCA_vect s) = acc2_last s"
  "acc2_on_start_time (TCC4_CCA_vect s) = acc2_on_start_time s"
  "acc2_off_start_time (TCC4_CCA_vect s) = acc2_off_start_time s"
  "TCC4_CCB (TCC4_CCA_vect s) = TCC4_CCB s"
  "CCBINTLVL (TCC4_CCA_vect s) = CCBINTLVL s"
  "TCC4_CCC (TCC4_CCA_vect s) = TCC4_CCC s"
  "CCCINTLVL (TCC4_CCA_vect s) = CCCINTLVL s"
  "ACC2_pin (TCC4_CCA_vect s) = ACC2_pin s"
  "PMIC_HILVLEN (TCC4_CCA_vect s) = PMIC_HILVLEN s"
  "power_state (TCC4_CCA_vect s) = power_state s"
  "stayon_state (TCC4_CCA_vect s) = stayon_state s"
  "prog_state (TCC4_CCA_vect s) = prog_state s"
  "minutes (TCC4_CCA_vect s) = minutes s"
  "seconds (TCC4_CCA_vect s) = seconds s"
  "WDT_ENABLE (TCC4_CCA_vect s) = WDT_ENABLE s"
  by (auto simp: TCC4_CCA_vect_def IS_ACC1_ON_def Let_def)

lemma TCC4_CCB_vect_sel:
  "acc2_last (TCC4_CCB_vect s) = (acc2_last s \<and> ACC2_pin s)"
  "acc2_off_start_time (TCC4_CCB_vect s) =
     (if acc2_last s \<and> \<not> ACC2_pin s then TCC4_CNT s else acc2_off_start_time s)"
  "acc2_on_start_time (TCC4_CCB_vect s) = acc2_on_start_time s"
  "TCC4_CCB (TCC4_CCB_vect s) = TCC4_CCB s"
  "CCBINTLVL (TCC4_CCB_vect s) = False"
  "TCC4_CNT (TCC4_CCB_vect s) = TCC4_CNT s"
  "ACC2_pin (TCC4_CCB_vect s) = ACC2_pin s"
  "acc1_last (TCC4_CCB_vect s) = acc1_last s"
  "acc1_on_start_time (TCC4_CCB_vect s) = acc1_on_start_time s"
  "acc1_off_start_time (TCC4_CCB_vect s) = acc1_off_start_time s"
  "TCC4_CCA (TCC4_CCB_vect s) = TCC4_CCA s"
  "CCAINTLVL (TCC4_CCB_vect s) = CCAINTLVL s"
  "TCC4_CCC (TCC4_CCB_vect s) = TCC4_CCC s"
  "CCCINTLVL (TCC4_CCB_vect s) = CCCINTLVL s"
  "ACC1_pin (TCC4_CCB_vect s) = ACC1_pin s"
  "PMIC_HILVLEN (TCC4_CCB_vect s) = PMIC_HILVLEN s"
  "power_state (TCC4_CCB_vect s) = power_state s"
  "stayon_state (TCC4_CCB_vect s) = stayon_state s"
  "prog_state (TCC4_CCB_vect s) = prog_state s"
  "minutes (TCC4_CCB_vect s) = minutes s"
  "seconds (TCC4_CCB_vect s) = seconds s"
  "WDT_ENABLE (TCC4_CCB_vect s) = WDT_ENABLE s"
  by (auto simp: TCC4_CCB_vect_def IS_ACC2_ON_def Let_def)

lemma TCC4_CCC_vect_sel:
  "minutes (TCC4_CCC_vect s) =
     (if seconds s + 1 = 60 then (if minutes s + 1 > 60 then 60 else minutes s + 1)
      else minutes s)"
  "acc1_last (TCC4_CCC_vect s) = acc1_last s"
  "acc1_on_start_time (TCC4_CCC_vect s) = acc1_on_start_time s"
  "acc1_off_start_time (TCC4_CCC_vect s) = acc1_off_start_time s"
  "TCC4_CCA (TCC4_CCC_vect s) = TCC4_CCA s"
  "CCAINTLVL (TCC4_CCC_vect s) = CCAINTLVL s"
  "acc2_last (TCC4_CCC_vect s) = acc2_last s"
  "acc2_on_start_time (TCC4_CCC_vect s) = acc2_on_start_time s"
  "acc2_off_start_time (TCC4_CCC_vect s) = acc2_off_start_time s"
  "TCC4_CCB (TCC4_CCC_vect s) = TCC4_CCB s"
  "CCBINTLVL (TCC4_CCC_vect s) = CCBINTLVL s"
  "TCC4_CNT (TCC4_CCC_vect s) = TCC4_CNT s"
  "ACC1_pin (TCC4_CCC_vect s) = ACC1_pin s"
  "ACC2_pin (TCC4_CCC_vect s) = ACC2_pin s"
  "PMIC_HILVLEN (TCC4_CCC_vect s) = PMIC_HILVLEN s"
  "power_state (TCC4_CCC_vect s) = power_state s"
  "stayon_state (TCC4_CCC_vect s) = stayon_state s"
  "prog_state (TCC4_CCC_vect s) = prog_state s"
  "WDT_ENABLE (TCC4_CCC_vect s) = WDT_ENABLE s"
  by (simp_all add: TCC4_CCC_vect_def Let_def tcnt_vals)

subsection \<open>Ticks and edges\<close>

lemma compare_A_lvl:
  "CCAINTLVL (compare_A s) = (CCAINTLVL s \<and> \<not> (PMIC_HILVLEN s \<and> TCC4_CNT s = TCC4_CCA s))"
  by (auto simp: compare_A_def TCC4_CCA_vect_sel)

lemma compare_A_sel:
  "acc1_last (compare_A s) =
     (if PMIC_HILVLEN s \<and> CCAINTLVL s \<and> TCC4_CNT s = TCC4_CCA s
      then acc1_last s \<and> ACC1_pin s else acc1_last s)"
  "acc1_off_start_time (compare_A s) =
     (if PMIC_HILVLEN s \<and> CCAINTLVL s \<and> TCC4_CNT s = TCC4_CCA s \<and> acc1_last s \<and> \<not> ACC1_pin s
      then TCC4_CNT s else acc1_off_start_time s)"
  "power_state (compare_A s) = power_state s"
  "stayon_state (compare_A s) = stayon_state s"
  "prog_state (compare_A s) = prog_state s"
  "PMIC_HILVLEN (compare_A s) = PMIC_HILVLEN s"
  "WDT_ENABLE (compare_A s) = WDT_ENABLE s"
  "TCC4_CNT (compare_A s) = TCC4_CNT s"
  "ACC1_pin (compare_A s) = ACC1_pin s"
  "ACC2_pin (compare_A s) = ACC2_pin s"
  "TCC4_CCA (compare_A s) = TCC4_CCA s"
  "TCC4_CCB (compare_A s) = TCC4_CCB s"
  "TCC4_CCC (compare_A s) = TCC4_CCC s"
  "acc1_on_start_time (compare_A s) = acc1_on_start_time s"
  "acc2_on_start_time (compare_A s) = acc2_on_start_time s"
  "acc2_last (compare_A s) = acc2_last s"
  "acc2_off_start_time (compare_A s) = acc2_off_start_time s"
  "CCBINTLVL (compare_A s) = CCBINTLVL s"
  "CCCINTLVL (compare_A s) = CCCINTLVL s"
  "minutes (compare_A s) = minutes s"
  "seconds (compare_A s) = seconds s"
  by (simp_all add: compare_A_def TCC4_CCA_vect_sel)

lemma compare_B_lvl:
  "CCBINTLVL (compare_B s) = (CCBINTLVL s \<and> \<not> (PMIC_HILVLEN s \<and> TCC4_CNT s = TCC4_CCB s))"
  by (auto simp: compare_B_def TCC4_CCB_vect_sel)

lemma compare_B_sel:
  "acc2_last (compare_B s) =
     (if PMIC_HILVLEN s \<and> CCBINTLVL s \<and> TCC4_CNT s = TCC4_CCB s
      then acc2_last s \<and> ACC2_pin s else acc2_last s)"
  "acc2_off_start_time (compare_B s) =
     (if PMIC_HILVLEN s \<and> CCBINTLVL s \<and> TCC4_CNT s = TCC4_CCB s \<and> acc2_last s \<and> \<not> ACC2_pin s
      then TCC4_CNT s else acc2_off_start_time s)"
  "power_state (compare_B s) = power_state s"
  "stayon_state (compare_B s) = stayon_state s"
  "prog_state (compare_B s) = prog_state s"
  "PMIC_HILVLEN (compare_B s) = PMIC_HILVLEN s"
  "WDT_ENABLE (compare_B s) = WDT_ENABLE s"
  "TCC4_CNT (compare_B s) = TCC4_CNT s"
  "ACC1_pin (compare_B s) = ACC1_pin s"
  "ACC2_pin (compare_B s) = ACC2_pin s"
  "TCC4_CCA (compare_B s) = TCC4_CCA s"
  "TCC4_CCB (compare_B s) = TCC4_CCB s"
  "TCC4_CCC (compare_B s) = TCC4_CCC s"
  "acc1_on_start_time (compare_B s) = acc1_on_start_time s"
  "acc2_on_start_time (compare_B s) = acc2_on_start_time s"
  "acc1_last (compare_B s) = acc1_last s"
  "acc1_off_start_time (compare_B s) = acc1_off_start_time s"
  "CCAINTLVL (compare_B s) = CCAINTLVL s"
  "CCCINTLVL (compare_B s) = CCCINTLVL s"
  "minutes (compare_B s) = minutes s"
  "seconds (compare_B s) = seconds s"
  by (simp_all add: compare_B_def TCC4_CCB_vect_sel)

lemma compare_C_sel:
  "acc1_last (compare_C s) = acc1_last s"
  "acc2_last (compare_C s) = acc2_last s"
  "acc1_on_start_time (compare_C s) = acc1_on_start_time s"
  "acc1_off_start_time (compare_C s) = acc1_off_start_time s"
  "acc2_on_start_time (compare_C s) = acc2_on_start_time s"
  "acc2_off_start_time (compare_C s) = acc2_off_start_time s"
  "CCAINTLVL (compare_C s) = CCAINTLVL s"
  "CCBINTLVL (compare_C s) = CCBINTLVL s"
  "TCC4_CCA (compare_C s) = TCC4_CCA s"
  "TCC4_CCB (compare_C s) = TCC4_CCB s"
  "TCC4_CNT (compare_C s) = TCC4_CNT s"
  "ACC1_pin (compare_C s) = ACC1_pin s"
  "ACC2_pin (compare_C s) = ACC2_pin s"
  "power_state (compare_C s) = power_state s"
  "stayon_state (compare_C s) = stayon_state s"
  "prog_state (compare_C s) = prog_state s"
  "PMIC_HILVLEN (compare_C s) = PMIC_HILVLEN s"
  "WDT_ENABLE (compare_C s) = WDT_ENABLE s"
  by (simp_all add: compare_C_def TCC4_CCC_vect_sel)

lemma TCC4_CCC_vect_minutes_le:
  "minutes s \<le> 60 \<Longrightarrow> minutes (TCC4_CCC_vect s) \<le> 60"
  by (simp add: TCC4_CCC_vect_sel not_less)

lemma compare_C_minutes_le:
  "minutes s \<le> 60 \<Longrightarrow> minutes (compare_C s) \<le> 60"
  by (simp add: compare_C_def TCC4_CCC_vect_minutes_le)

lemma tick_sel:
  "power_state (tick s) = power_state s"
  "stayon_state (tick s) = stayon_state s"
  "prog_state (tick s) = prog_state s"
  "PMIC_HILVLEN (tick s) = PMIC_HILVLEN s"
  "WDT_ENABLE (tick s) = WDT_ENABLE s"
  "TCC4_CNT (tick s) = TCC4_CNT s + 1"
  "ACC1_pin (tick s) = ACC1_pin s"
  "ACC2_pin (tick s) = ACC2_pin s"
  "TCC4_CCA (tick s) = TCC4_CCA s"
  "TCC4_CCB (tick s) = TCC4_CCB s"
  "acc1_last (tick s) =
     (if PMIC_HILVLEN s \<and> CCAINTLVL s \<and> TCC4_CNT s + 1 = TCC4_CCA s
      then acc1_last s \<and> ACC1_pin s else acc1_last s)"
  "acc2_last (tick s) =
     (if PMIC_HILVLEN s \<and> CCBINTLVL s \<and> TCC4_CNT s + 1 = TCC4_CCB s
      then acc2_last s \<and> ACC2_pin s else acc2_last s)"
  "CCAINTLVL (tick s) = (CCAINTLVL s \<and> \<not> (PMIC_HILVLEN s \<and> TCC4_CNT s + 1 = TCC4_CCA s))"
  "CCBINTLVL (tick s) = (CCBINTLVL s \<and> \<not> (PMIC_HILVLEN s \<and> TCC4_CNT s + 1 = TCC4_CCB s))"
  "acc1_off_start_time (tick s) =
     (if PMIC_HILVLEN s \<and> CCAINTLVL s \<and> TCC4_CNT s + 1 = TCC4_CCA s \<and>
         acc1_last s \<and> \<not> ACC1_pin s
      then TCC4_CNT s + 1 else acc1_off_start_time s)"
  "acc2_off_start_time (tick s) =
     (if PMIC_HILVLEN s \<and> CCBINTLVL s \<and> TCC4_CNT s + 1 = TCC4_CCB s \<and>
         acc2_last s \<and> \<not> ACC2_pin s
      then TCC4_CNT s + 1 else acc2_off_start_time s)"
  "acc1_on_start_time (tick s) = acc1_on_start_time s"
  "acc2_on_start_time (tick s) = acc2_on_start_time s"
  by (simp_all add: tick_def compare_A_sel compare_B_sel compare_C_sel
        compare_A_lvl compare_B_lvl)

lemma tick_minutes_le:
  "minutes s \<le> 60 \<Longrightarrow> minutes (tick s) \<le> 60"
  by (simp add: tick_def compare_C_minutes_le compare_A_sel compare_B_sel)

lemma edge_sel:
  "power_state (edge c s) = power_state s"
  "stayon_state (edge c s) = stayon_state s"
  "prog_state (edge c s) = prog_state s"
  "PMIC_HILVLEN (edge c s) = PMIC_HILVLEN s"
  "WDT_ENABLE (edge c s) = WDT_ENABLE s"
  "minutes (edge c s) = minutes s"
  "TCC4_CNT (edge c s) = TCC4_CNT s"
  by (cases c; simp add: Let_def PORTD_INT_vect_sel PORTA_INT_vect_sel)+

lemma edge_acc_last:
  "acc1_last (edge c s) = (acc1_last s \<or> (c = ACC1 \<and> PMIC_HILVLEN s))"
  "acc2_last (edge c s) = (acc2_last s \<or> (c = ACC2 \<and> PMIC_HILVLEN s))"
  by (cases c; simp add: Let_def PORTD_INT_vect_sel PORTA_INT_vect_sel)+

lemma compute_times_frame2:
  "ACC1_pin (compute_times s) = ACC1_pin s"
  "ACC2_pin (compute_times s) = ACC2_pin s"
  "TCC4_CCA (compute_times s) = TCC4_CCA s"
  "TCC4_CCB (compute_times s) = TCC4_CCB s"
  "CCAINTLVL (compute_times s) = CCAINTLVL s"
  "CCBINTLVL (compute_times s) = CCBINTLVL s"
  "V1EN (compute_times s) = V1EN s"
  "V2EN (compute_times s) = V2EN s"
  by (simp_all add: compute_times_def acc1_times_def acc2_times_def Let_def)

lemma main_loop_sel:
  "PMIC_HILVLEN (main_loop s) = (power_state s = SM_POWER_RESET \<or> PMIC_HILVLEN s)"
  "acc1_last (main_loop s) =
     (if power_state s = SM_POWER_RESET then ACC1_pin s else acc1_last s)"
  "acc2_last (main_loop s) = acc2_last s"
  "minutes (main_loop s) =
     (if power_state s = SM_POWER_RESET \<or>
         (power_state s = SM_POWER_OUT_STAY_ON \<and> \<not> acc1_last s)
      then 0 else minutes s)"
  by (simp_all add: ml_simps power_sm_minutes compute_times_frame2)

lemma power_sm_on:
  "power_state s \<noteq> SM_POWER_RESET \<Longrightarrow> acc1_last s \<Longrightarrow>
   power_state (fst (power_sm s)) = SM_POWER_OUT_OFF \<or>
   power_state (fst (power_sm s)) = SM_POWER_OUT_ON \<or>
   power_state (fst (power_sm s)) = SM_POWER_OUT_STAY_ON"
  by (cases "power_state s") (simp_all add: power_sm_power_state)

lemma power_sm_not_reset:
  "power_state (fst (power_sm s)) \<noteq> SM_POWER_RESET"
  by (cases "power_state s") (simp_all add: power_sm_power_state)

lemma main_loop_power_state_not_reset:
  "power_state (main_loop s) \<noteq> SM_POWER_RESET"
  by (simp add: main_loop_eq Let_def prog_sm_frame stayon_sm_sel power_sm_not_reset)

subsection \<open>The three ways through an iteration\<close>

lemma main_loop_flow:
  "snd (power_sm (compute_times (s\<lparr>slept := None\<rparr>))) =
    (if power_state s = SM_POWER_RESET \<or>
        (power_state s = SM_POWER_DOWN \<and> \<not> acc1_last s) \<or>
        (power_state s = SM_POWER_TIMER \<and> \<not> acc1_last s \<and> minutes s < wait_minutes s)
     then Continue else Break)"
  by (simp add: power_sm_flow compute_times_frame)

lemma main_loop_continue:
  assumes "power_state s = SM_POWER_RESET \<or>
   (power_state s = SM_POWER_DOWN \<and> \<not> acc1_last s) \<or>
   (power_state s = SM_POWER_TIMER \<and> \<not> acc1_last s \<and> minutes s < wait_minutes s)"
  shows "main_loop s = fst (power_sm (compute_times (s\<lparr>slept := None\<rparr>)))"
proof -
  have "snd (power_sm (compute_times (s\<lparr>slept := None\<rparr>))) = Continue"
    unfolding main_loop_flow using assms by simp
  then show ?thesis
    unfolding main_loop_eq Let_def by (rule if_P)
qed

lemma main_loop_off:
  assumes "power_state s \<noteq> SM_POWER_RESET" "power_state s \<noteq> SM_POWER_DOWN"
    "\<not> (power_state s = SM_POWER_TIMER \<and> minutes s < wait_minutes s)" "\<not> acc1_last s"
  shows "main_loop s = (fst (power_sm (compute_times (s\<lparr>slept := None\<rparr>))))
     \<lparr>stayon_state := SM_STAYON_RESET, prog_state := SM_PROG_RESET\<rparr>"
proof -
  have f: "snd (power_sm (compute_times (s\<lparr>slept := None\<rparr>))) \<noteq> Continue"
    unfolding main_loop_flow using assms by simp
  have a: "\<not> acc1_last (fst (power_sm (compute_times (s\<lparr>slept := None\<rparr>))))"
    using assms by (simp add: power_sm_acc1_last compute_times_frame)
  show ?thesis
    unfolding main_loop_eq Let_def if_not_P [OF f] using a by (rule if_P)
qed

lemma main_loop_on:
  assumes "power_state s \<noteq> SM_POWER_RESET" "acc1_last s"
  shows "main_loop s =
    prog_sm (stayon_sm (fst (power_sm (compute_times (s\<lparr>slept := None\<rparr>)))))"
proof -
  have f: "snd (power_sm (compute_times (s\<lparr>slept := None\<rparr>))) \<noteq> Continue"
    unfolding main_loop_flow using assms by simp
  have a: "\<not> \<not> acc1_last (fst (power_sm (compute_times (s\<lparr>slept := None\<rparr>))))"
    using assms by (simp add: power_sm_acc1_last compute_times_frame)
  show ?thesis
    unfolding main_loop_eq Let_def if_not_P [OF f] using a by (rule if_not_P)
qed

subsection \<open>The invariant\<close>

lemma inv_main_loop:
  assumes "inv s"
  shows "inv (main_loop s)"
proof -
  have m: "minutes (main_loop s) \<le> 60"
    using assms by (simp add: inv_def main_loop_sel)
  have sub: "stayon_state (main_loop s) = SM_STAYON_RESET \<and>
             prog_state (main_loop s) = SM_PROG_RESET"
    if d: "power_state (main_loop s) = SM_POWER_DOWN \<or>
           power_state (main_loop s) = SM_POWER_TIMER"
  proof -
    consider
      (cont) "power_state s = SM_POWER_RESET \<or>
         (power_state s = SM_POWER_DOWN \<and> \<not> acc1_last s) \<or>
         (power_state s = SM_POWER_TIMER \<and> \<not> acc1_last s \<and> minutes s < wait_minutes s)"
      | (off) "power_state s \<noteq> SM_POWER_RESET" "power_state s \<noteq> SM_POWER_DOWN"
          "\<not> (power_state s = SM_POWER_TIMER \<and> minutes s < wait_minutes s)" "\<not> acc1_last s"
      | (on) "power_state s \<noteq> SM_POWER_RESET" "acc1_last s"
      by blast
    then show ?thesis
    proof cases
      case cont
      then have "stayon_state s = SM_STAYON_RESET \<and> prog_state s = SM_PROG_RESET"
        using assms by (auto simp: inv_def)
      then show ?thesis
        by (simp add: main_loop_continue [OF cont] power_sm_frame compute_times_frame)
    next
      case off
      then show ?thesis by (simp add: main_loop_off)
    next
      case on
      let ?u = "fst (power_sm (compute_times (s\<lparr>slept := None\<rparr>)))"
      have "power_state ?u = SM_POWER_OUT_OFF \<or> power_state ?u = SM_POWER_OUT_ON \<or>
            power_state ?u = SM_POWER_OUT_STAY_ON"
        using on by (intro power_sm_on) (simp_all add: compute_times_frame)
      then have "power_state (main_loop s) \<noteq> SM_POWER_DOWN \<and>
                 power_state (main_loop s) \<noteq> SM_POWER_TIMER"
        by (auto simp: main_loop_on [OF on] prog_sm_frame stayon_sm_sel)
      with d show ?thesis by simp
    qed
  qed
  show ?thesis
    unfolding inv_def using m sub main_loop_power_state_not_reset [of s] by blast
qed

lemma inv_tick: "inv s \<Longrightarrow> inv (tick s)"
  by (simp add: inv_def tick_sel tick_minutes_le)

lemma inv_edge: "inv s \<Longrightarrow> inv (edge c s)"
  by (simp add: inv_def edge_sel edge_acc_last)

lemma inv_boot: "boot_state s \<Longrightarrow> inv s"
  by (simp add: inv_def boot_state_def)

lemma reachable_inv: "reachable s \<Longrightarrow> inv s"
proof (induction rule: reachable.induct)
  case (boot s)
  then show ?case by (rule inv_boot)
next
  case (step s e)
  then show ?case
    by (cases e) (simp_all add: inv_main_loop inv_tick inv_edge)
qed

lemma stayon_sm_frame2:
  "slept (stayon_sm s) = slept s"
  "TCC4_CNT (stayon_sm s) = TCC4_CNT s"
  "TCC4_CCA (stayon_sm s) = TCC4_CCA s"
  "TCC4_CCB (stayon_sm s) = TCC4_CCB s"
  "CCAINTLVL (stayon_sm s) = CCAINTLVL s"
  "CCBINTLVL (stayon_sm s) = CCBINTLVL s"
  "ACC1_pin (stayon_sm s) = ACC1_pin s"
  "ACC2_pin (stayon_sm s) = ACC2_pin s"
  by (simp_all add: stayon_sm_def split: STAYON_SM.splits)

lemma prog_sm_frame2:
  "slept (prog_sm s) = slept s"
  "TCC4_CNT (prog_sm s) = TCC4_CNT s"
  "TCC4_CCA (prog_sm s) = TCC4_CCA s"
  "TCC4_CCB (prog_sm s) = TCC4_CCB s"
  "CCAINTLVL (prog_sm s) = CCAINTLVL s"
  "CCBINTLVL (prog_sm s) = CCBINTLVL s"
  "ACC1_pin (prog_sm s) = ACC1_pin s"
  "ACC2_pin (prog_sm s) = ACC2_pin s"
  by (simp_all add: prog_sm_def eeprom_write_byte_def Let_def split: PROG_SM.splits)


lemma main_loop_on_power:
  assumes "power_state s \<noteq> SM_POWER_RESET" "acc1_last s"
  shows "power_state (main_loop s) = SM_POWER_OUT_OFF \<or>
         power_state (main_loop s) = SM_POWER_OUT_ON \<or>
         power_state (main_loop s) = SM_POWER_OUT_STAY_ON"
proof -
  let ?u = "fst (power_sm (compute_times (s\<lparr>slept := None\<rparr>)))"
  have "power_state ?u = SM_POWER_OUT_OFF \<or> power_state ?u = SM_POWER_OUT_ON \<or>
        power_state ?u = SM_POWER_OUT_STAY_ON"
    using assms by (intro power_sm_on) (simp_all add: compute_times_frame)
  then show ?thesis
    by (auto simp: main_loop_on [OF assms] prog_sm_frame stayon_sm_sel)
qed

lemma main_loop_wdt:
  "WDT_ENABLE (main_loop s) =
     (if power_state s = SM_POWER_RESET \<or> (power_state s = SM_POWER_DOWN \<and> \<not> acc1_last s)
      then True
      else if power_state s = SM_POWER_TIMER \<and> \<not> acc1_last s \<and> minutes s < wait_minutes s
      then False else WDT_ENABLE s)"
  "slept (main_loop s) =
     (if power_state s = SM_POWER_DOWN \<and> \<not> acc1_last s then Some SLEEP_SMODE_PDOWN
      else if power_state s = SM_POWER_TIMER \<and> \<not> acc1_last s \<and> minutes s < wait_minutes s
      then Some SLEEP_SMODE_IDLE else None)"
  by (simp_all add: ml_simps power_sm_wdt stayon_sm_frame2 prog_sm_frame2)




subsection \<open>An armed debounce timer\<close>










lemma reachable_run: "reachable s \<Longrightarrow> reachable (run evs s)"
  unfolding run_def by (induction evs arbitrary: s) (simp_all add: reachable.step)

lemma boot_state_boot0: "boot_state boot0" "boot_state boot1" "boot_state boot250"
  by (simp_all add: boot_state_def boot0_def boot1_def boot250_def)

section \<open>The claims\<close>

text \<open>
  C1. In every poll cycle where the power state is OutOn or OutStayOn, the relay output
  (both power switches) is set ON if the programming phase is not IndOff and is forced
  OFF if it is IndOff; no other programming phase, IndOn included, forces the relay OFF.
  The phase is the one the iteration starts with: the power machine reads it before the
  programming machine runs.
\<close>

theorem C1_relay_follows_prog_phase: 
  "power_state s = SM_POWER_OUT_ON \<or> power_state s = SM_POWER_OUT_STAY_ON \<Longrightarrow>
   V1EN (main_loop s) = (prog_state s \<noteq> SM_PROG_IND_OFF) \<and>
   V2EN (main_loop s) = (prog_state s \<noteq> SM_PROG_IND_OFF)"
  by (auto simp: main_loop_eq power_sm_flow power_sm_V12EN Let_def compute_times_frame
        stayon_sm_frame prog_sm_frame)

theorem C1_relay_follows_prog_phase_witness:
  "power_state (boot0\<lparr>power_state := SM_POWER_OUT_ON, prog_state := SM_PROG_IND_ON\<rparr>)
     = SM_POWER_OUT_ON \<and>
   V1EN (main_loop (boot0\<lparr>power_state := SM_POWER_OUT_ON, prog_state := SM_PROG_IND_ON\<rparr>)) \<and>
   V2EN (main_loop (boot0\<lparr>power_state := SM_POWER_OUT_ON, prog_state := SM_PROG_IND_ON\<rparr>)) \<and>
   power_state (boot0\<lparr>power_state := SM_POWER_OUT_STAY_ON, prog_state := SM_PROG_IND_OFF\<rparr>)
     = SM_POWER_OUT_STAY_ON \<and>
   \<not> V1EN (main_loop
      (boot0\<lparr>power_state := SM_POWER_OUT_STAY_ON, prog_state := SM_PROG_IND_OFF\<rparr>)) \<and>
   \<not> V2EN (main_loop
      (boot0\<lparr>power_state := SM_POWER_OUT_STAY_ON, prog_state := SM_PROG_IND_OFF\<rparr>))"
  using
    C1_relay_follows_prog_phase
      [of "boot0\<lparr>power_state := SM_POWER_OUT_ON, prog_state := SM_PROG_IND_ON\<rparr>"]
    C1_relay_follows_prog_phase
      [of "boot0\<lparr>power_state := SM_POWER_OUT_STAY_ON, prog_state := SM_PROG_IND_OFF\<rparr>"]
  by (simp add: boot0_def)



text \<open>
  C3. Every duration computed in a poll cycle (the ON time or the OFF time of either
  channel, the wrap-around difference of the snapshot tick and the active start time)
  is at most 65.000 s; when the difference exceeds 65.000 s the duration is 65.000 s and
  the active start time becomes now - 65.000 s; a later poll with the level unchanged, at
  any later tick, again yields at most 65.000 s.
\<close>

theorem C3_durations_clamped:
  "(acc1_last s \<longrightarrow>
      acc1_on_time (compute_times s) \<le> 65000 \<and>
      acc1_on_time (compute_times s) =
        (if TCC4_CNT s - acc1_on_start_time s > 65000 then 65000
         else TCC4_CNT s - acc1_on_start_time s) \<and>
      (TCC4_CNT s - acc1_on_start_time s > 65000 \<longrightarrow>
         acc1_on_start_time (compute_times s) = TCC4_CNT s - 65000) \<and>
      (\<forall>now'. acc1_on_time (compute_times (compute_times s\<lparr>TCC4_CNT := now'\<rparr>)) \<le> 65000)) \<and>
   (\<not> acc1_last s \<longrightarrow>
      acc1_off_time (compute_times s) \<le> 65000 \<and>
      acc1_off_time (compute_times s) =
        (if TCC4_CNT s - acc1_off_start_time s > 65000 then 65000
         else TCC4_CNT s - acc1_off_start_time s) \<and>
      (TCC4_CNT s - acc1_off_start_time s > 65000 \<longrightarrow>
         acc1_off_start_time (compute_times s) = TCC4_CNT s - 65000) \<and>
      (\<forall>now'. acc1_off_time (compute_times (compute_times s\<lparr>TCC4_CNT := now'\<rparr>)) \<le> 65000)) \<and>
   (acc2_last s \<longrightarrow>
      acc2_on_time (compute_times s) \<le> 65000 \<and>
      acc2_on_time (compute_times s) =
        (if TCC4_CNT s - acc2_on_start_time s > 65000 then 65000
         else TCC4_CNT s - acc2_on_start_time s) \<and>
      (TCC4_CNT s - acc2_on_start_time s > 65000 \<longrightarrow>
         acc2_on_start_time (compute_times s) = TCC4_CNT s - 65000) \<and>
      (\<forall>now'. acc2_on_time (compute_times (compute_times s\<lparr>TCC4_CNT := now'\<rparr>)) \<le> 65000)) \<and>
   (\<not> acc2_last s \<longrightarrow>
      acc2_off_time (compute_times s) \<le> 65000 \<and>
      acc2_off_time (compute_times s) =
        (if TCC4_CNT s - acc2_off_start_time s > 65000 then 65000
         else TCC4_CNT s - acc2_off_start_time s) \<and>
      (TCC4_CNT s - acc2_off_start_time s > 65000 \<longrightarrow>
         acc2_off_start_time (compute_times s) = TCC4_CNT s - 65000) \<and>
      (\<forall>now'. acc2_off_time (compute_times (compute_times s\<lparr>TCC4_CNT := now'\<rparr>)) \<le> 65000))"
  apply (intro conjI impI allI)
  apply (simp_all add: compute_times_sel compute_times_frame clamp_le)
  apply (simp_all add: not_less)
  done

theorem C3_durations_clamped_witness:
  "acc1_last (boot0\<lparr>acc1_last := True, TCC4_CNT := 100, acc1_on_start_time := 200\<rparr>) \<and>
   acc1_on_time (compute_times
     (boot0\<lparr>acc1_last := True, TCC4_CNT := 100, acc1_on_start_time := 200\<rparr>)) = 65000 \<and>
   acc1_on_start_time (compute_times
     (boot0\<lparr>acc1_last := True, TCC4_CNT := 100, acc1_on_start_time := 200\<rparr>)) = 636 \<and>
   acc2_off_time (compute_times
     (boot0\<lparr>acc1_last := True, TCC4_CNT := 100, acc1_on_start_time := 200\<rparr>)) = 100 \<and>
   acc2_last (boot0\<lparr>acc2_last := True, TCC4_CNT := 7, acc1_off_start_time := 5\<rparr>) \<and>
   acc2_on_time (compute_times
     (boot0\<lparr>acc2_last := True, TCC4_CNT := 7, acc1_off_start_time := 5\<rparr>)) = 7 \<and>
   acc1_off_time (compute_times
     (boot0\<lparr>acc2_last := True, TCC4_CNT := 7, acc1_off_start_time := 5\<rparr>)) = 2"
  using
    C3_durations_clamped
      [of "boot0\<lparr>acc1_last := True, TCC4_CNT := 100, acc1_on_start_time := 200\<rparr>"]
    C3_durations_clamped
      [of "boot0\<lparr>acc2_last := True, TCC4_CNT := 7, acc1_off_start_time := 5\<rparr>"]
  by (simp add: boot0_def)







text \<open>
  C9. In every reachable state the minutes counter is at most 60, and the 1-second
  handler keeps it there; so with \<^verbatim>\<open>wait_minutes\<close> above 60 the condition
  \<^verbatim>\<open>minutes >= wait_minutes\<close> is false, and an iteration that starts in Timer does not end
  in Down.
\<close>

theorem C9_minutes_saturate:
  assumes "reachable s"
  shows "minutes s \<le> 60 \<and> minutes (TCC4_CCC_vect s) \<le> 60 \<and>
    (60 < wait_minutes s \<longrightarrow>
       \<not> minutes s \<ge> wait_minutes s \<and>
       (power_state s = SM_POWER_TIMER \<longrightarrow> power_state (main_loop s) \<noteq> SM_POWER_DOWN))"
proof -
  have m: "minutes s \<le> 60"
    using reachable_inv [OF assms] by (simp add: inv_def)
  have d: "power_state (main_loop s) \<noteq> SM_POWER_DOWN"
    if w: "60 < wait_minutes s" and t: "power_state s = SM_POWER_TIMER"
  proof (cases "acc1_last s")
    case True
    then show ?thesis using main_loop_on_power [of s] t by auto
  next
    case False
    from m w have "minutes s < wait_minutes s" by (rule order_le_less_trans)
    with False t have "main_loop s = fst (power_sm (compute_times (s\<lparr>slept := None\<rparr>)))"
      by (intro main_loop_continue) simp
    then show ?thesis
      using False t \<open>minutes s < wait_minutes s\<close>
      by (simp add: power_sm_power_state compute_times_frame not_le)
  qed
  from m have "60 < wait_minutes s \<Longrightarrow> \<not> wait_minutes s \<le> minutes s"
    by (simp add: not_le order_le_less_trans)
  with m d show ?thesis by (simp add: TCC4_CCC_vect_minutes_le)
qed

theorem C9_minutes_saturate_witness:
  "reachable (run stay_on_then_off boot250) \<and>
   power_state (run stay_on_then_off boot250) = SM_POWER_TIMER \<and>
   60 < wait_minutes (run stay_on_then_off boot250) \<and>
   minutes (run stay_on_then_off boot250) \<le> 60 \<and>
   power_state (main_loop (run stay_on_then_off boot250)) \<noteq> SM_POWER_DOWN"
proof -
  let ?s = "run stay_on_then_off boot250"
  have r: "reachable ?s"
    by (simp add: reachable_run reachable.boot boot_state_boot0)
  have h: "power_state ?s = SM_POWER_TIMER" "60 < wait_minutes ?s"
    by code_simp+
  from C9_minutes_saturate [OF r] h
  have "minutes ?s \<le> 60" "power_state (main_loop ?s) \<noteq> SM_POWER_DOWN"
    by simp_all
  then show ?thesis using r h by simp
qed

text \<open>
  C10. An iteration that starts in Timer with ACC1 OFF and no timeout executes the idle
  sleep, and an iteration that has executed the idle sleep ends with the watchdog
  disabled. From a state with the watchdog disabled it stays disabled along every run of
  iterations, ticks and edges in which no iteration runs Reset or the power-down sleep of
  Down, the two places that enable it; this covers the iterations that leave Timer for
  OutOn or OutOff. \<^verbatim>\<open>wdt_reset\<close> does not change the enable.
\<close>

theorem C10_watchdog_stays_off:
  "(power_state s = SM_POWER_TIMER \<and> \<not> acc1_last s \<and> minutes s < wait_minutes s \<longrightarrow>
      slept (main_loop s) = Some SLEEP_SMODE_IDLE) \<and>
   (slept (main_loop s) = Some SLEEP_SMODE_IDLE \<longrightarrow> \<not> WDT_ENABLE (main_loop s)) \<and>
   (\<not> WDT_ENABLE s \<and> wdt_quiet evs s \<longrightarrow> \<not> WDT_ENABLE (run evs s)) \<and>
   WDT_ENABLE (wdt_reset s) = WDT_ENABLE s"
proof -
  have step: "\<not> WDT_ENABLE (step e t)" if "\<not> WDT_ENABLE t" "\<not> (e = Loop \<and> wdt_enabling t)"
    for e t
    using that
    by (cases e) (auto simp: main_loop_wdt wdt_enabling_def tick_sel edge_sel split: if_splits)
  have "\<not> WDT_ENABLE t \<Longrightarrow> wdt_quiet evs t \<Longrightarrow> \<not> WDT_ENABLE (fold step evs t)" for t
  proof (induction evs arbitrary: t)
    case Nil
    then show ?case by simp
  next
    case (Cons e es)
    from Cons.prems have "\<not> WDT_ENABLE (step e t)" by (intro step) simp_all
    moreover from Cons.prems have "wdt_quiet es (step e t)" by simp
    ultimately show ?case using Cons.IH by simp
  qed
  then show ?thesis
    by (auto simp: run_def main_loop_wdt wdt_reset_def split: if_splits)
qed

theorem C10_watchdog_stays_off_witness:
  "power_state (run stay_on_then_off boot250) = SM_POWER_TIMER \<and>
   \<not> acc1_last (run stay_on_then_off boot250) \<and>
   slept (main_loop (run stay_on_then_off boot250)) = Some SLEEP_SMODE_IDLE \<and>
   \<not> WDT_ENABLE (main_loop (run stay_on_then_off boot250)) \<and>
   wdt_quiet [Tick, Edge ACC1, Loop, Loop] (main_loop (run stay_on_then_off boot250)) \<and>
   power_state (run [Tick, Edge ACC1, Loop, Loop] (main_loop (run stay_on_then_off boot250)))
     = SM_POWER_OUT_ON \<and>
   \<not> WDT_ENABLE
     (run [Tick, Edge ACC1, Loop, Loop] (main_loop (run stay_on_then_off boot250)))"
proof -
  let ?s = "run stay_on_then_off boot250"
  have h: "power_state ?s = SM_POWER_TIMER" "\<not> acc1_last ?s"
    "minutes ?s < wait_minutes ?s"
    "wdt_quiet [Tick, Edge ACC1, Loop, Loop] (main_loop ?s)"
    "power_state (run [Tick, Edge ACC1, Loop, Loop] (main_loop ?s)) = SM_POWER_OUT_ON"
    by code_simp+
  from C10_watchdog_stays_off [of ?s "[]"] h
  have a: "slept (main_loop ?s) = Some SLEEP_SMODE_IDLE" "\<not> WDT_ENABLE (main_loop ?s)"
    by simp_all
  from C10_watchdog_stays_off [of "main_loop ?s" "[Tick, Edge ACC1, Loop, Loop]"] a h
  have "\<not> WDT_ENABLE (run [Tick, Edge ACC1, Loop, Loop] (main_loop ?s))"
    by simp
  then show ?thesis using a h by simp
qed

end
